theory Spec2Isabelle
  imports Complex_Main "HOL-Library.AList"
begin

section \<open>Data model\<close>

text \<open>
  The algorithm receives records of the custom data type \<open>QuiverInsiderTradingUniverse\<close>.
  The selection code reads four attributes of each record. The three numeric attributes are
  nullable: \<open>None\<close> is Python's \<open>None\<close>.

  Numbers are exact rationals, and products and sums are computed exactly. The values that
  reach the Python code are binary floating-point numbers, whose products and sums are
  rounded and can be infinite or not a number. That is outside this model, so nothing is
  stated here about where exactly a sum falls with respect to the threshold of 100000: the
  properties below are about grouping, counting, absent fields, order and state, and the one
  concrete sum evaluated (110000) is exact in floating point as well.
\<close>

type_synonym symbol = string

record datum =
  Symbol :: symbol
  Shares :: "rat option"
  PricePerShare :: "rat option"
  SharesOwnedFollowing :: "rat option"

text \<open>
  The exceptions the modelled code can raise: \<open>TypeError\<close> for an arithmetic operation on
  \<open>None\<close>, \<open>KeyError\<close> for a dictionary lookup of a missing key, and the \<open>ValueError\<close> with
  its message that \<open>Initialize\<close> raises.
\<close>

datatype error = TypeError | KeyError | ValueError string

datatype resolution = Tick | Second | Minute | Hour | Daily

text \<open>
  One line handed to \<open>self.Log\<close> by \<open>UniverseSelection\<close>: the four interpolated values of the
  format string, kept as values (their rendering as text is the engine's).
\<close>

datatype log_line = LogLine symbol "rat option" "rat option" "rat option"

text \<open>
  The part of the algorithm object that the code of this file writes: the settings made by
  \<open>Initialize\<close>, the registered universes and the log.
\<close>

record algorithm =
  UniverseSettings_Resolution :: resolution
  StartDate :: "nat \<times> nat \<times> nat"
  EndDate :: "nat \<times> nat \<times> nat"
  Cash :: int
  Universes :: "(string \<times> resolution) list"
  LogOutput :: "log_line list"

section \<open>Initialize\<close>

definition digit_char :: "nat \<Rightarrow> char" where
  "digit_char d = ''0123456789'' ! d"

text \<open>Decimal rendering of a natural number, as the format string does for \<open>len(history)\<close>.\<close>

fun str_nat :: "nat \<Rightarrow> string" where
  "str_nat n = (if n < 10 then [digit_char n] else str_nat (n div 10) @ [digit_char (n mod 10)])"

declare str_nat.simps [simp del]

text \<open>The loop over the periods of the history: the first period with fewer than 300 records raises.\<close>

fun check_history :: "datum list list \<Rightarrow> error + unit" where
  "check_history [] = Inr ()"
| "check_history (dataForDate # rest) =
     (if length dataForDate < 300 then Inl (ValueError ''Unexpected historical universe data!'')
      else check_history rest)"

text \<open>
  \<open>Initialize\<close>. The answer of the engine to the one-day history request for the universe is
  the parameter \<open>history\<close>: one list of records per period.
\<close>

definition Initialize :: "algorithm \<Rightarrow> datum list list \<Rightarrow> error + algorithm" where
  "Initialize self history =
     (let self1 = self\<lparr>UniverseSettings_Resolution := Daily\<rparr>;
          self2 = self1\<lparr>StartDate := (2022, 2, 14)\<rparr>;
          self3 = self2\<lparr>EndDate := (2022, 2, 18)\<rparr>;
          self4 = self3\<lparr>Cash := 100000\<rparr>;
          self5 = self4\<lparr>Universes := Universes self4 @ [(''QuiverInsiderTradingUniverse'', Daily)]\<rparr>
      in if length history \<noteq> 1
         then Inl (ValueError (''Unexpected history count '' @ str_nat (length history) @ ''! Expected 1''))
         else (case check_history history of
                 Inl e \<Rightarrow> Inl e
               | Inr _ \<Rightarrow> Inr self5))"

section \<open>UniverseSelection\<close>

text \<open>
  The dictionary \<open>symbol_data\<close> is an association list in insertion order, as a Python
  dictionary is: \<open>AList.update\<close> appends a new key at the end and replaces the value of a key
  that is present where it stands.
\<close>

type_synonym symbol_data = "(symbol \<times> datum list) list"

definition dict_getitem :: "('k \<times> 'v) list \<Rightarrow> 'k \<Rightarrow> error + 'v" where
  "dict_getitem d k = (case map_of d k of None \<Rightarrow> Inl KeyError | Some v \<Rightarrow> Inr v)"

definition Log :: "log_line \<Rightarrow> algorithm \<Rightarrow> algorithm" where
  "Log line self = self\<lparr>LogOutput := LogOutput self @ [line]\<rparr>"

definition log_line_of :: "datum \<Rightarrow> log_line" where
  "log_line_of datum =
     LogLine (Symbol datum) (Shares datum) (PricePerShare datum) (SharesOwnedFollowing datum)"

text \<open>The grouping loop \<open>for datum in data\<close>, with the dictionary and the algorithm object threaded through.\<close>

fun group_loop :: "datum list \<Rightarrow> symbol_data \<Rightarrow> algorithm \<Rightarrow> (error + symbol_data) \<times> algorithm" where
  "group_loop [] sd self = (Inr sd, self)"
| "group_loop (datum # rest) sd self =
     (let symbol = Symbol datum;
          self1 = Log (log_line_of datum) self;
          sd1 = (if map_of sd symbol = None then AList.update symbol [] sd else sd)
      in case dict_getitem sd1 symbol of
           Inl e \<Rightarrow> (Inl e, self1)
         | Inr l \<Rightarrow> group_loop rest (AList.update symbol (l @ [datum]) sd1) self1)"

text \<open>
  Multiplication of two attribute values: Python raises \<open>TypeError\<close> when one is \<open>None\<close>.
  The product of two numbers is the exact one, without the rounding of floating point.
\<close>

fun mult :: "rat option \<Rightarrow> rat option \<Rightarrow> error + rat" where
  "mult (Some a) (Some b) = Inr (a * b)"
| "mult _ _ = Inl TypeError"

text \<open>
  The inner comprehension
  \<open>[x.Shares * x.PricePerShare for x in d if x.Shares != None and x.PricePerShare != None]\<close>.
\<close>

fun products :: "datum list \<Rightarrow> error + rat list" where
  "products [] = Inr []"
| "products (x # d) =
     (if Shares x \<noteq> None \<and> PricePerShare x \<noteq> None
      then (case mult (Shares x) (PricePerShare x) of
              Inl e \<Rightarrow> Inl e
            | Inr v \<Rightarrow> (case products d of Inl e \<Rightarrow> Inl e | Inr vs \<Rightarrow> Inr (v # vs)))
      else products d)"

text \<open>\<open>sum([...])\<close> over the inner comprehension: the exact sum, without the rounding of floating point.\<close>

definition notional :: "datum list \<Rightarrow> error + rat" where
  "notional d = (case products d of Inl e \<Rightarrow> Inl e | Inr vs \<Rightarrow> Inr (sum_list vs))"

text \<open>
  The outer comprehension over \<open>symbol_data.items()\<close>. The \<open>and\<close> is short-circuit: the sum
  is only computed for a group of at least two records.
\<close>

fun selection :: "symbol_data \<Rightarrow> error + symbol list" where
  "selection [] = Inr []"
| "selection ((symbol, d) # rest) =
     (if length d \<ge> 2
      then (case notional d of
              Inl e \<Rightarrow> Inl e
            | Inr n \<Rightarrow>
                (if n > 100000
                 then (case selection rest of Inl e \<Rightarrow> Inl e | Inr syms \<Rightarrow> Inr (symbol # syms))
                 else selection rest))
      else selection rest)"

definition UniverseSelection :: "algorithm \<Rightarrow> datum list \<Rightarrow> (error + symbol list) \<times> algorithm" where
  "UniverseSelection self data =
     (case group_loop data [] self of
        (Inl e, self') \<Rightarrow> (Inl e, self')
      | (Inr symbol_data, self') \<Rightarrow> (selection symbol_data, self'))"

section \<open>Notions used to state the properties\<close>

text \<open>The group of a symbol in a batch: the records of the batch that carry the symbol, in batch order.\<close>

definition records_of :: "symbol \<Rightarrow> datum list \<Rightarrow> datum list" where
  "records_of symbol data = filter (\<lambda>x. Symbol x = symbol) data"

text \<open>
  What one record contributes to the notional of its symbol: shares times price when both
  are present, and 0 when one of them is absent.
\<close>

definition contribution :: "datum \<Rightarrow> rat" where
  "contribution x =
     (case Shares x of
        None \<Rightarrow> 0
      | Some s \<Rightarrow> (case PricePerShare x of None \<Rightarrow> 0 | Some p \<Rightarrow> s * p))"

text \<open>The position of the first occurrence of a symbol in a list of symbols.\<close>

definition first_index :: "'a list \<Rightarrow> 'a \<Rightarrow> nat" where
  "first_index xs x = length (takeWhile (\<lambda>y. y \<noteq> x) xs)"

text \<open>The distinct elements of a list, in the order of their first occurrences.\<close>

definition first_seen :: "'a list \<Rightarrow> 'a list" where
  "first_seen xs = rev (remdups (rev xs))"

text \<open>The dictionary that the grouping loop builds from a batch.\<close>

definition groups :: "datum list \<Rightarrow> symbol_data" where
  "groups data = map (\<lambda>k. (k, records_of k data)) (first_seen (map Symbol data))"

text \<open>The selection criterion for a symbol of a batch.\<close>

definition qualifies :: "datum list \<Rightarrow> symbol \<Rightarrow> bool" where
  "qualifies data symbol \<longleftrightarrow>
     2 \<le> length (records_of symbol data) \<and> 100000 < sum_list (map contribution (records_of symbol data))"

section \<open>Concrete inputs\<close>

text \<open>An algorithm object as it stands before \<open>Initialize\<close>: nothing registered, nothing logged.\<close>

definition example_algorithm :: algorithm where
  "example_algorithm =
     \<lparr>UniverseSettings_Resolution = Minute, StartDate = (1998, 1, 1), EndDate = (2022, 11, 4),
      Cash = 0, Universes = [], LogOutput = []\<rparr>"

text \<open>A record with both numeric fields present, and a record with both absent.\<close>

definition trade :: "symbol \<Rightarrow> rat \<Rightarrow> rat \<Rightarrow> datum" where
  "trade symbol shares price =
     \<lparr>Symbol = symbol, Shares = Some shares, PricePerShare = Some price, SharesOwnedFollowing = None\<rparr>"

definition blank :: "symbol \<Rightarrow> datum" where
  "blank symbol =
     \<lparr>Symbol = symbol, Shares = None, PricePerShare = None, SharesOwnedFollowing = None\<rparr>"

section \<open>The notional\<close>

lemma products_total:
  "products d = Inr (map contribution (filter (\<lambda>x. Shares x \<noteq> None \<and> PricePerShare x \<noteq> None) d))"
  by (induction d) (auto simp: contribution_def)

lemma contribution_absent_zero:
  "Shares x = None \<or> PricePerShare x = None \<Longrightarrow> contribution x = 0"
  by (auto simp: contribution_def split: option.splits)

lemma contribution_absent:
  "sum_list (map contribution (filter (\<lambda>x. Shares x \<noteq> None \<and> PricePerShare x \<noteq> None) d)) =
   sum_list (map contribution d)"
  by (induction d) (auto simp: contribution_absent_zero)

lemma notional_total: "notional d = Inr (sum_list (map contribution d))"
  by (simp only: notional_def products_total sum.case contribution_absent)

section \<open>The grouping loop\<close>

lemma first_seen_snoc:
  "first_seen (xs @ [x]) = (if x \<in> set xs then first_seen xs else first_seen xs @ [x])"
  by (simp add: first_seen_def)

lemma set_first_seen: "set (first_seen xs) = set xs"
  by (simp add: first_seen_def)

lemma distinct_first_seen: "distinct (first_seen xs)"
  by (simp add: first_seen_def)

lemma update_new_key:
  "k \<notin> set ks \<Longrightarrow> AList.update k v (map (\<lambda>j. (j, f j)) ks) = map (\<lambda>j. (j, f j)) ks @ [(k, v)]"
  by (induction ks) auto

lemma update_old_key:
  "k \<in> set ks \<Longrightarrow> distinct ks \<Longrightarrow>
   AList.update k v (map (\<lambda>j. (j, f j)) ks) = map (\<lambda>j. (j, if j = k then v else f j)) ks"
  by (induction ks) auto

lemma map_of_keyed:
  "map_of (map (\<lambda>j. (j, f j)) ks) k = (if k \<in> set ks then Some (f k) else None)"
  by (induction ks) auto

lemma records_of_snoc:
  "records_of k (pre @ [x]) = (if Symbol x = k then records_of k pre @ [x] else records_of k pre)"
  by (simp add: records_of_def)

lemma records_of_absent: "k \<notin> Symbol ` set pre \<Longrightarrow> records_of k pre = []"
  by (auto simp: records_of_def filter_empty_conv)

lemma groups_snoc_new:
  assumes "Symbol x \<notin> Symbol ` set pre"
  shows "groups (pre @ [x]) = groups pre @ [(Symbol x, [x])]"
proof -
  have "map (\<lambda>k. (k, records_of k (pre @ [x]))) (first_seen (map Symbol pre)) =
        map (\<lambda>k. (k, records_of k pre)) (first_seen (map Symbol pre))"
    using assms by (intro map_cong refl) (auto simp: records_of_snoc set_first_seen)
  then show ?thesis
    using assms by (simp add: groups_def first_seen_snoc records_of_snoc records_of_absent)
qed

lemma groups_snoc_old:
  assumes "Symbol x \<in> Symbol ` set pre"
  shows "groups (pre @ [x]) =
         map (\<lambda>j. (j, if j = Symbol x then records_of (Symbol x) pre @ [x] else records_of j pre))
           (first_seen (map Symbol pre))"
  using assms by (auto simp: groups_def first_seen_snoc records_of_snoc)

lemma update_last_key:
  "map_of al k = None \<Longrightarrow> AList.update k v (al @ [(k, w)]) = al @ [(k, v)]"
  by (induction al) (auto split: if_splits)

lemma group_step_new:
  assumes "Symbol x \<notin> Symbol ` set pre"
  shows "group_loop (x # rest) (groups pre) self =
         group_loop rest (groups (pre @ [x])) (Log (log_line_of x) self)"
proof -
  have k: "Symbol x \<notin> set (first_seen (map Symbol pre))"
    using assms by (simp add: set_first_seen)
  have none: "map_of (groups pre) (Symbol x) = None"
    using k by (simp add: groups_def map_of_keyed)
  have upd: "AList.update (Symbol x) [] (groups pre) = groups pre @ [(Symbol x, [])]"
    using k by (simp add: groups_def update_new_key)
  have get: "dict_getitem (groups pre @ [(Symbol x, [])]) (Symbol x) = Inr []"
    using none by (simp add: dict_getitem_def map_add_def)
  have upd2: "AList.update (Symbol x) [x] (groups pre @ [(Symbol x, [])]) = groups pre @ [(Symbol x, [x])]"
    using none by (simp add: update_last_key)
  show ?thesis
    by (simp add: none upd get upd2 groups_snoc_new [OF assms])
qed

lemma group_step_old:
  assumes "Symbol x \<in> Symbol ` set pre"
  shows "group_loop (x # rest) (groups pre) self =
         group_loop rest (groups (pre @ [x])) (Log (log_line_of x) self)"
proof -
  have k: "Symbol x \<in> set (first_seen (map Symbol pre))"
    using assms by (simp add: set_first_seen)
  have some: "map_of (groups pre) (Symbol x) = Some (records_of (Symbol x) pre)"
    using k by (simp add: groups_def map_of_keyed)
  have get: "dict_getitem (groups pre) (Symbol x) = Inr (records_of (Symbol x) pre)"
    using some by (simp add: dict_getitem_def)
  have upd: "AList.update (Symbol x) (records_of (Symbol x) pre @ [x]) (groups pre) = groups (pre @ [x])"
    using k by (simp add: groups_def [of pre] update_old_key distinct_first_seen groups_snoc_old [OF assms])
  show ?thesis
    by (simp add: some get upd)
qed

lemma group_loop_groups:
  "group_loop rest (groups pre) self =
   (Inr (groups (pre @ rest)), self\<lparr>LogOutput := LogOutput self @ map log_line_of rest\<rparr>)"
proof (induction rest arbitrary: pre self)
  case Nil
  then show ?case by simp
next
  case (Cons x rest)
  have "group_loop (x # rest) (groups pre) self =
        group_loop rest (groups (pre @ [x])) (Log (log_line_of x) self)"
    by (cases "Symbol x \<in> Symbol ` set pre") (rule group_step_old, assumption, rule group_step_new, assumption)
  also have "\<dots> = (Inr (groups ((pre @ [x]) @ rest)),
      (Log (log_line_of x) self)\<lparr>LogOutput := LogOutput (Log (log_line_of x) self) @ map log_line_of rest\<rparr>)"
    by (rule Cons.IH)
  finally show ?case
    by (simp add: Log_def del: group_loop.simps)
qed

lemma selection_keyed:
  "selection (map (\<lambda>k. (k, g k)) ks) =
   Inr (filter (\<lambda>k. 2 \<le> length (g k) \<and> 100000 < sum_list (map contribution (g k))) ks)"
  by (induction ks) (simp_all add: notional_total)

lemma UniverseSelection_eq:
  "UniverseSelection self data =
   (Inr (filter (qualifies data) (first_seen (map Symbol data))),
    self\<lparr>LogOutput := LogOutput self @ map log_line_of data\<rparr>)"
proof -
  have "groups [] = []" by (simp add: groups_def first_seen_def)
  then have "group_loop data [] self =
    (Inr (groups data), self\<lparr>LogOutput := LogOutput self @ map log_line_of data\<rparr>)"
    using group_loop_groups [of data "[]" self] by simp
  then show ?thesis
    by (simp add: UniverseSelection_def groups_def selection_keyed qualifies_def [abs_def])
qed


lemma first_index_snoc_old: "a \<in> set xs \<Longrightarrow> first_index (xs @ [x]) a = first_index xs a"
  by (simp add: first_index_def)

lemma first_index_snoc_new: "a \<notin> set xs \<Longrightarrow> first_index (xs @ [a]) a = length xs"
  unfolding first_index_def by (induction xs) auto

lemma first_index_less: "a \<in> set xs \<Longrightarrow> first_index xs a < length xs"
  unfolding first_index_def by (induction xs) auto

lemma first_seen_ordered:
  "sorted_wrt (\<lambda>a b. first_index xs a < first_index xs b) (first_seen xs)"
proof (induction xs rule: rev_induct)
  case Nil
  then show ?case by (simp add: first_seen_def)
next
  case (snoc x xs)
  have old: "sorted_wrt (\<lambda>a b. first_index (xs @ [x]) a < first_index (xs @ [x]) b) (first_seen xs)"
    using snoc.IH
    by (rule sorted_wrt_mono_rel [rotated]) (simp add: set_first_seen first_index_snoc_old)
  show ?case
  proof (cases "x \<in> set xs")
    case True
    then show ?thesis using old by (simp add: first_seen_snoc)
  next
    case False
    then show ?thesis using old
      by (simp add: first_seen_snoc sorted_wrt_append set_first_seen
          first_index_snoc_old first_index_snoc_new first_index_less)
  qed
qed

lemma check_history_raises:
  "(\<exists>e. check_history history = Inl e) \<longleftrightarrow> (\<exists>dataForDate \<in> set history. length dataForDate < 300)"
  by (induction history) auto

lemma check_history_message:
  "check_history history = Inl e \<Longrightarrow> e = ValueError ''Unexpected historical universe data!''"
  by (induction history) (auto split: if_splits)

section \<open>Properties of the selection and of the history check\<close>

text \<open>
  C1: for every batch, the selection returns a list (it raises nothing), the dictionary built
  by the loop holds for each symbol the records of the batch with that symbol, and the
  notional that the code computes for the group of a symbol is the sum of the contributions
  of its records: shares times price for a record with both fields present, 0 for a record
  with an absent field.
\<close>
theorem absent_fields_contribute_zero:
  "(\<exists>syms. fst (UniverseSelection self data) = Inr syms) \<and>
   fst (group_loop data [] self) = Inr (groups data) \<and>
   notional (records_of symbol data) = Inr (sum_list (map contribution (records_of symbol data)))"
proof -
  have "groups [] = []"
    by (simp add: groups_def first_seen_def)
  then have "fst (group_loop data [] self) = Inr (groups data)"
    using group_loop_groups [of data "[]" self] by simp
  then show ?thesis
    by (simp add: UniverseSelection_eq notional_total)
qed

text \<open>
  C2: a symbol whose group in the batch has fewer than 2 records is not in the returned list,
  whatever its notional.
\<close>
theorem few_records_excluded:
  "length (records_of symbol data) < 2 \<Longrightarrow>
   \<exists>syms. fst (UniverseSelection self data) = Inr syms \<and> symbol \<notin> set syms"
  by (simp add: UniverseSelection_eq qualifies_def)

theorem few_records_excluded_witness:
  "length (records_of ''B'' [trade ''A'' 1 1, trade ''B'' 1000 1000]) < 2 \<and>
   (\<exists>syms. fst (UniverseSelection example_algorithm [trade ''A'' 1 1, trade ''B'' 1000 1000]) = Inr syms \<and>
      ''B'' \<notin> set syms)"
  using few_records_excluded [of "''B''" "[trade ''A'' 1 1, trade ''B'' 1000 1000]" example_algorithm]
  by (simp add: records_of_def trade_def)

text \<open>
  C4: for every batch, the empty one included, every returned symbol is the symbol of a
  record of the batch.
\<close>
theorem selected_symbols_in_batch:
  "\<exists>syms. fst (UniverseSelection self data) = Inr syms \<and> set syms \<subseteq> Symbol ` set data"
  by (auto simp: UniverseSelection_eq set_first_seen)

text \<open>
  C5: on the batch of two records for A (1000 shares at 60, 1000 shares at 50) and one record
  for B (1 share at 1), the selection returns exactly A, whatever the third numeric field of
  the records and whatever the state of the algorithm object.
\<close>
theorem spec_example:
  "fst (UniverseSelection self
     [\<lparr>Symbol = ''A'', Shares = Some 1000, PricePerShare = Some 60, SharesOwnedFollowing = o1\<rparr>,
      \<lparr>Symbol = ''A'', Shares = Some 1000, PricePerShare = Some 50, SharesOwnedFollowing = o2\<rparr>,
      \<lparr>Symbol = ''B'', Shares = Some 1, PricePerShare = Some 1, SharesOwnedFollowing = o3\<rparr>]) = Inr [''A'']"
  by (simp add: UniverseSelection_def dict_getitem_def notional_def Let_def)

text \<open>
  C6: the returned list has no duplicates.
\<close>
theorem no_duplicate_symbols:
  "\<exists>syms. fst (UniverseSelection self data) = Inr syms \<and> distinct syms"
  by (simp add: UniverseSelection_eq distinct_first_seen)

text \<open>
  C7: the returned list depends on the batch only: it is the same from any two states of the
  algorithm object, in particular from the state that a first call on the same batch leaves.
  The only change a call makes to the algorithm object is one appended log line per record.
\<close>
theorem selection_stateless:
  "fst (UniverseSelection self data) = fst (UniverseSelection self' data) \<and>
   fst (UniverseSelection (snd (UniverseSelection self data)) data) = fst (UniverseSelection self data) \<and>
   snd (UniverseSelection self data) = self\<lparr>LogOutput := LogOutput self @ map log_line_of data\<rparr>"
  by (simp add: UniverseSelection_eq)

text \<open>
  C8: \<open>Initialize\<close> raises a \<open>ValueError\<close> with a non-empty message exactly when the
  history has a number of periods other than 1 or one of its periods has fewer than 300
  records; exactly otherwise it returns the configured algorithm object.
\<close>
theorem history_sanity_check:
  "((\<exists>msg. Initialize self history = Inl (ValueError msg) \<and> msg \<noteq> []) \<longleftrightarrow>
      (length history \<noteq> 1 \<or> (\<exists>dataForDate \<in> set history. length dataForDate < 300))) \<and>
   ((\<exists>self'. Initialize self history = Inr self') \<longleftrightarrow>
      \<not> (length history \<noteq> 1 \<or> (\<exists>dataForDate \<in> set history. length dataForDate < 300)))"
proof (cases "length history \<noteq> 1")
  case True
  then show ?thesis by (simp add: Initialize_def)
next
  case one: False
  show ?thesis
  proof (cases "check_history history")
    case (Inl e)
    then have "e = ValueError ''Unexpected historical universe data!''"
      by (rule check_history_message)
    moreover have "\<exists>dataForDate \<in> set history. length dataForDate < 300"
      using Inl check_history_raises [of history] by blast
    ultimately show ?thesis
      using one Inl by (simp add: Initialize_def)
  next
    case (Inr u)
    then have "\<not> (\<exists>dataForDate \<in> set history. length dataForDate < 300)"
      using check_history_raises [of history] by auto
    then show ?thesis
      using one Inr by (simp add: Initialize_def)
  qed
qed

theorem history_sanity_check_witness:
  "(length [replicate 300 (blank ''A'')] = 1 \<and>
    \<not> (\<exists>dataForDate \<in> set [replicate 300 (blank ''A'')]. length dataForDate < 300) \<and>
    (\<exists>self'. Initialize example_algorithm [replicate 300 (blank ''A'')] = Inr self')) \<and>
   (length ([] :: datum list list) \<noteq> 1 \<and>
    (\<exists>msg. Initialize example_algorithm [] = Inl (ValueError msg) \<and> msg \<noteq> []))"
  using history_sanity_check [of example_algorithm "[replicate 300 (blank ''A'')]"]
    history_sanity_check [of example_algorithm "[]"]
  by simp

text \<open>
  C9: the returned list is ordered by the position of the first occurrence of each symbol in
  the batch: of two symbols of the list, the earlier one occurs first in the batch earlier.
\<close>
theorem first_occurrence_order:
  "\<exists>syms. fst (UniverseSelection self data) = Inr syms \<and>
     set syms \<subseteq> set (map Symbol data) \<and>
     sorted_wrt (\<lambda>a b. first_index (map Symbol data) a < first_index (map Symbol data) b) syms"
  by (auto simp: UniverseSelection_eq set_first_seen sorted_wrt_filter first_seen_ordered)

theorem first_occurrence_order_witness:
  "fst (UniverseSelection example_algorithm
     [trade ''B'' 1000 60, trade ''A'' 1000 70, trade ''A'' 1000 70, trade ''B'' 1000 60]) = Inr [''B'', ''A''] \<and>
   first_index (map Symbol [trade ''B'' 1000 60, trade ''A'' 1000 70, trade ''A'' 1000 70, trade ''B'' 1000 60]) ''B'' = 0 \<and>
   first_index (map Symbol [trade ''B'' 1000 60, trade ''A'' 1000 70, trade ''A'' 1000 70, trade ''B'' 1000 60]) ''A'' = 1"
  using first_occurrence_order [of example_algorithm
      "[trade ''B'' 1000 60, trade ''A'' 1000 70, trade ''A'' 1000 70, trade ''B'' 1000 60]"]
  by (simp add: UniverseSelection_def dict_getitem_def notional_def trade_def first_index_def Let_def)



end
